theory Spec2Isabelle
  imports Complex_Main "HOL-Library.Sublist"
begin

section \<open>The reporting pipeline of the status client\<close>

text \<open>
  A shallow embedding of \<^verbatim>\<open>src/reporter/Reporter.ts\<close> (class \<^verbatim>\<open>Reporter\<close>),
  of \<^verbatim>\<open>MonitorClient.start\<close> in \<^verbatim>\<open>src/index.ts\<close> and of the two versions
  of the network throughput computation of class \<^verbatim>\<open>SystemCollector\<close>.

  Mutation of \<^verbatim>\<open>this\<close> is explicit state passing. Everything outside the
  process (the HTTP server, the file system, the clock, the UUID generator) is an input:
  the outcome of the k-th call of an operation is given by a function of k, so that a
  statement quantified over that function covers every behaviour of the outside world.
  A thrown exception is the \<open>Inl\<close> branch of a sum.
\<close>

subsection \<open>Data\<close>

text \<open>
  \<^verbatim>\<open>ClientConfig\<close> (\<^verbatim>\<open>config/types.ts\<close>). JavaScript numbers that hold counts
  and milliseconds are modelled as \<open>int\<close>.
\<close>

record ClientConfig =
  clientName :: string
  clientTags :: "string list"
  clientPurpose :: string
  serverUrl :: string
  reportInterval :: int
  minReportInterval :: int
  maxRetries :: int
  cacheSize :: int

text \<open>
  \<^verbatim>\<open>CachedReport\<close> (\<^verbatim>\<open>reporter/types.ts\<close>). No operation of the reporter that is
  modelled here looks inside a \<^verbatim>\<open>ReportPayload\<close>, so the payload is a type
  parameter.
\<close>

record 'p CachedReport =
  payload :: 'p
  timestamp :: int
  retryCount :: int

text \<open>
  The content of \<^verbatim>\<open>failed-reports.json\<close>: either the serialisation of a list of
  cached reports (what \<^verbatim>\<open>saveCacheToDisk\<close> writes with \<^verbatim>\<open>JSON.stringify\<close>) or
  any other text. Only writing the file is modelled, not reading it back.
\<close>

datatype 'p file_content = Json "'p CachedReport list" | Garbage string

text \<open>
  The result of \<^verbatim>\<open>await axios.post(...)\<close>: the promise resolves with a response
  of some status, or it rejects (connection refused, timeout, DNS failure, or a status
  that axios itself turns into a rejection).
\<close>

datatype post_result = Resolved int | Rejected string

datatype error =
    ServerReturnedStatus int
  | RequestFailed string
  | CollectFailed string

text \<open>
  The outside world of a reporter: \<open>post k p\<close> is the result of the k-th HTTP POST
  of the process (counting from 0) when its body is \<open>p\<close>; \<open>fs_ok k\<close> says whether
  the k-th attempt to write the cache file succeeds (directory creation and
  \<^verbatim>\<open>writeFileSync\<close> together).
\<close>

record 'p world =
  post :: "nat \<Rightarrow> 'p \<Rightarrow> post_result"
  fs_ok :: "nat \<Rightarrow> bool"

text \<open>
  The state of a \<^verbatim>\<open>Reporter\<close>: its configuration and in-memory \<^verbatim>\<open>cache\<close>,
  together with the part of the world it changes: the cache file (\<open>None\<close> when the
  file does not exist), the number of write attempts made on it, and the bodies of the
  POST requests sent so far, oldest first. The fields \<^verbatim>\<open>clientId\<close>,
  \<^verbatim>\<open>staticInfo\<close>, \<^verbatim>\<open>logger\<close> and \<^verbatim>\<open>cacheFilePath\<close> are not read by the
  operations below and are left out; log lines are not modelled.
\<close>

record 'p Reporter =
  config :: ClientConfig
  cache :: "'p CachedReport list"
  disk :: "'p file_content option"
  writeAttempts :: nat
  posts :: "'p list"

subsection \<open>Array.prototype.slice with one argument\<close>

text \<open>
  \<^verbatim>\<open>xs.slice(start)\<close> for an integral \<open>start\<close>: a negative \<open>start\<close> counts
  from the end (\<open>max (len + start) 0\<close>), any other one from the front
  (\<open>min start len\<close>). The argument \<^verbatim>\<open>-0\<close> is the integer 0, hence not negative.
\<close>

definition js_slice_from :: "int \<Rightarrow> 'a list \<Rightarrow> 'a list" where
  "js_slice_from start xs =
     (let len = int (length xs);
          k = (if start < 0 then max (len + start) 0 else min start len)
      in drop (nat k) xs)"

subsection \<open>Reporter: persistence\<close>

text \<open>
  \<^verbatim>\<open>saveCacheToDisk\<close>: the write is wrapped in \<^verbatim>\<open>try/catch\<close>; a failure is
  logged and leaves the file as it was.
\<close>

definition saveCacheToDisk :: "'p world \<Rightarrow> 'p Reporter \<Rightarrow> 'p Reporter" where
  "saveCacheToDisk w r =
     r\<lparr>disk := (if fs_ok w (writeAttempts r) then Some (Json (cache r)) else disk r),
       writeAttempts := Suc (writeAttempts r)\<rparr>"

subsection \<open>Reporter: cacheFailedReport and clearCache\<close>

text \<open>
  \<^verbatim>\<open>cacheFailedReport(payload)\<close>; \<open>now\<close> is the value of \<^verbatim>\<open>Date.now()\<close>.
\<close>

definition cacheFailedReport :: "'p world \<Rightarrow> int \<Rightarrow> 'p \<Rightarrow> 'p Reporter \<Rightarrow> 'p Reporter" where
  "cacheFailedReport w now p r =
     (let cachedReport = \<lparr>payload = p, timestamp = now, retryCount = 0\<rparr>;
          pushed = cache r @ [cachedReport];
          limited =
            (if int (length pushed) > cacheSize (config r)
             then js_slice_from (- cacheSize (config r)) pushed
             else pushed)
      in saveCacheToDisk w (r\<lparr>cache := limited\<rparr>))"

definition clearCache :: "'p world \<Rightarrow> 'p Reporter \<Rightarrow> 'p Reporter" where
  "clearCache w r =
     (if length (cache r) > 0 then saveCacheToDisk w (r\<lparr>cache := []\<rparr>) else r)"

definition getCacheSize :: "'p Reporter \<Rightarrow> nat" where
  "getCacheSize r = length (cache r)"

subsection \<open>Reporter: report and retryCachedReports\<close>

text \<open>
  The body of the \<^verbatim>\<open>try\<close> block shared by \<^verbatim>\<open>report\<close> and the loop of
  \<^verbatim>\<open>retryCachedReports\<close>: a status in \<open>[200, 300)\<close> is success, any other
  status throws \<^verbatim>\<open>Server returned status ...\<close>, a rejected promise throws.
\<close>

fun try_post :: "post_result \<Rightarrow> error + unit" where
  "try_post (Resolved status) =
     (if status \<ge> 200 \<and> status < 300 then Inr () else Inl (ServerReturnedStatus status))"
| "try_post (Rejected msg) = Inl (RequestFailed msg)"

text \<open>
  \<^verbatim>\<open>report(payload)\<close>: the result is \<open>Inr ()\<close> when the promise resolves and
  \<open>Inl e\<close> when it rejects with \<open>e\<close>; the second component is the reporter after
  the call.
\<close>

definition report :: "'p world \<Rightarrow> int \<Rightarrow> 'p \<Rightarrow> 'p Reporter \<Rightarrow> (error + unit) \<times> 'p Reporter" where
  "report w now p r =
     (let sent = r\<lparr>posts := posts r @ [p]\<rparr> in
      case try_post (post w (length (posts r)) p) of
        Inr _ \<Rightarrow> (Inr (), clearCache w sent)
      | Inl e \<Rightarrow> (Inl e, cacheFailedReport w now p sent))"

text \<open>
  The \<^verbatim>\<open>for (const cachedReport of this.cache)\<close> loop of \<^verbatim>\<open>retryCachedReports\<close>.
  \<open>failedReports\<close> is the array of the same name and \<open>sent\<close> the POST bodies sent
  so far; the result is both after the loop.
\<close>

fun retry_loop ::
  "'p world \<Rightarrow> int \<Rightarrow> 'p CachedReport list \<Rightarrow> 'p CachedReport list \<Rightarrow> 'p list
     \<Rightarrow> 'p CachedReport list \<times> 'p list" where
  "retry_loop w maxR [] failedReports sent = (failedReports, sent)"
| "retry_loop w maxR (cachedReport # rest) failedReports sent =
     (case try_post (post w (length sent) (payload cachedReport)) of
        Inr _ \<Rightarrow> retry_loop w maxR rest failedReports (sent @ [payload cachedReport])
      | Inl _ \<Rightarrow>
          (let bumped = cachedReport\<lparr>retryCount := retryCount cachedReport + 1\<rparr> in
           if retryCount bumped < maxR
           then retry_loop w maxR rest (failedReports @ [bumped]) (sent @ [payload cachedReport])
           else retry_loop w maxR rest failedReports (sent @ [payload cachedReport])))"

definition retryCachedReports :: "'p world \<Rightarrow> 'p Reporter \<Rightarrow> 'p Reporter" where
  "retryCachedReports w r =
     (if length (cache r) = 0 then r
      else
        (case retry_loop w (maxRetries (config r)) (cache r) [] (posts r) of
           (failedReports, sent) \<Rightarrow>
             saveCacheToDisk w (r\<lparr>cache := failedReports, posts := sent\<rparr>)))"

subsection \<open>MonitorClient: start and stop\<close>

text \<open>
  The state of a \<^verbatim>\<open>MonitorClient\<close> (\<^verbatim>\<open>src/index.ts\<close>): its reporter, the
  fields \<^verbatim>\<open>intervalId\<close> and \<^verbatim>\<open>isRunning\<close>, and what it has set going in the
  event loop: the handles of the interval timers that are armed (\<open>nextTimer\<close> is the
  handle the next \<^verbatim>\<open>setInterval\<close> returns) and the number of
  \<^verbatim>\<open>collectAndReport()\<close> calls started. Such a call is not awaited: it runs after
  the caller has returned, so its own effects are not part of the caller's result.
\<close>

record 'p MonitorClient =
  reporter :: "'p Reporter"
  intervalId :: "nat option"
  isRunning :: bool
  timers :: "nat list"
  nextTimer :: nat
  cyclesStarted :: nat

definition startReportingLoop :: "'p MonitorClient \<Rightarrow> 'p MonitorClient" where
  "startReportingLoop c =
     c\<lparr>cyclesStarted := Suc (cyclesStarted c),
       intervalId := Some (nextTimer c),
       timers := timers c @ [nextTimer c],
       nextTimer := Suc (nextTimer c)\<rparr>"

text \<open>
  \<^verbatim>\<open>start()\<close>: \<open>staticInfo\<close> is the result of
  \<^verbatim>\<open>await this.collector.collectStaticInfo()\<close> (\<open>Inl\<close> when it throws; the value
  goes to \<^verbatim>\<open>setStaticInfo\<close>, into a field no operation here reads). The first
  component of the result is \<open>Inr ()\<close> when the promise of \<^verbatim>\<open>start\<close> resolves
  and \<open>Inl e\<close> when it rejects. An already running client logs a warning and returns.
\<close>

definition start ::
  "'p world \<Rightarrow> error + 's \<Rightarrow> 'p MonitorClient \<Rightarrow> (error + unit) \<times> 'p MonitorClient" where
  "start w staticInfo c =
     (if isRunning c then (Inr (), c)
      else
        (case staticInfo of
           Inl e \<Rightarrow> (Inl e, c)
         | Inr info \<Rightarrow>
             (Inr (),
              startReportingLoop
                (c\<lparr>reporter := retryCachedReports w (reporter c), isRunning := True\<rparr>))))"

definition stop :: "'p MonitorClient \<Rightarrow> 'p MonitorClient" where
  "stop c =
     (if \<not> isRunning c then c
      else
        (case intervalId c of
           Some t \<Rightarrow> c\<lparr>timers := removeAll t (timers c), intervalId := None, isRunning := False\<rparr>
         | None \<Rightarrow> c\<lparr>isRunning := False\<rparr>))"

subsection \<open>Reporter: loadOrGenerateClientId\<close>

text \<open>
  The cache directory as \<^verbatim>\<open>loadOrGenerateClientId\<close> sees it: whether the directory
  exists, and the content of \<^verbatim>\<open>client-id.txt\<close> (\<open>None\<close> when it does not exist).
\<close>

text \<open>
  A JavaScript string is a sequence of UTF-16 code units, here natural numbers. The
  identifier file is read with encoding \<^verbatim>\<open>utf-8\<close>, so its content reaches the
  code as such a string (a byte order mark stays in it, as the code unit \<open>0xFEFF\<close>).
  \<open>utf16\<close> gives the code units of an ASCII text.
\<close>

type_synonym js_string = "nat list"

definition utf16 :: "string \<Rightarrow> js_string" where
  "utf16 s = map of_char s"

record id_fs =
  dir_exists :: bool
  id_file :: "js_string option"

text \<open>
  What the outside world answers during one call: whether \<^verbatim>\<open>mkdirSync\<close>,
  \<^verbatim>\<open>readFileSync\<close> and \<^verbatim>\<open>writeFileSync\<close> succeed (each throws otherwise;
  \<^verbatim>\<open>existsSync\<close> never throws), and the token that the k-th call of
  \<^verbatim>\<open>uuidv4()\<close> returns.
\<close>

record id_world =
  mkdir_ok :: bool
  read_ok :: bool
  write_ok :: bool
  uuidv4 :: "nat \<Rightarrow> js_string"

datatype fs_error = MkdirFailed | ReadFailed | WriteFailed

text \<open>
  \<^verbatim>\<open>String.prototype.trim\<close> strips the code units that ECMAScript calls
  WhiteSpace or LineTerminator from both ends: TAB, VT, FF, SP, NBSP (\<open>0xA0\<close>), the
  byte order mark (\<open>0xFEFF\<close>), the other space separators of Unicode (\<open>0x1680\<close>,
  \<open>0x2000\<close> to \<open>0x200A\<close>, \<open>0x202F\<close>, \<open>0x205F\<close>, \<open>0x3000\<close>), and LF, CR,
  LS (\<open>0x2028\<close>) and PS (\<open>0x2029\<close>). All of them are single code units.
\<close>

definition js_whitespace :: "nat \<Rightarrow> bool" where
  "js_whitespace c =
     (c = 0x09 \<or> c = 0x0B \<or> c = 0x0C \<or> c = 0x20 \<or> c = 0xA0 \<or> c = 0xFEFF
      \<or> c = 0x1680 \<or> (0x2000 \<le> c \<and> c \<le> 0x200A) \<or> c = 0x202F \<or> c = 0x205F
      \<or> c = 0x3000
      \<or> c = 0x0A \<or> c = 0x0D \<or> c = 0x2028 \<or> c = 0x2029)"

definition js_trim :: "js_string \<Rightarrow> js_string" where
  "js_trim s = rev (dropWhile js_whitespace (rev (dropWhile js_whitespace s)))"

text \<open>
  The \<^verbatim>\<open>try\<close> block of \<^verbatim>\<open>loadOrGenerateClientId\<close>. The result is the value
  returned (\<open>Inr\<close>) or the operation that threw (\<open>Inl\<close>), the file system after the
  block, and the number of \<^verbatim>\<open>uuidv4()\<close> calls made in it.
\<close>

definition loadOrGenerateClientId_try ::
  "id_world \<Rightarrow> id_fs \<Rightarrow> (fs_error + js_string) \<times> id_fs \<times> nat" where
  "loadOrGenerateClientId_try w fs =
     (if \<not> dir_exists fs \<and> \<not> mkdir_ok w then (Inl MkdirFailed, fs, 0)
      else
        (let fs1 = fs\<lparr>dir_exists := True\<rparr>;
             generate =
               (let newId = uuidv4 w 0 in
                if write_ok w then (Inr newId, fs1\<lparr>id_file := Some newId\<rparr>, 1)
                else (Inl WriteFailed, fs1, 1))
         in case id_file fs1 of
              None \<Rightarrow> generate
            | Some content \<Rightarrow>
                if \<not> read_ok w then (Inl ReadFailed, fs1, 0)
                else (let ident = js_trim content in
                      if ident \<noteq> [] then (Inr ident, fs1, 0) else generate)))"

text \<open>
  \<^verbatim>\<open>loadOrGenerateClientId(cacheDir)\<close>: the \<^verbatim>\<open>catch\<close> block logs the error and
  returns one more \<^verbatim>\<open>uuidv4()\<close>, which it does not write.
\<close>

definition loadOrGenerateClientId :: "id_world \<Rightarrow> id_fs \<Rightarrow> js_string \<times> id_fs" where
  "loadOrGenerateClientId w fs =
     (case loadOrGenerateClientId_try w fs of
        (Inr ident, fs', n) \<Rightarrow> (ident, fs')
      | (Inl e, fs', n) \<Rightarrow> (uuidv4 w n, fs'))"

subsection \<open>SystemCollector: network throughput\<close>

text \<open>
  The two fields of \<^verbatim>\<open>si.Systeminformation.NetworkStatsData\<close> that are read; on an
  integer \<open>n\<close> the expression \<^verbatim>\<open>n || 0\<close> is \<open>n\<close>.
\<close>

record NetworkStatsData =
  iface :: string
  rx_bytes :: int
  tx_bytes :: int

text \<open>
  The stored sample: \<^verbatim>\<open>lastNetworkStats\<close> in one version of the class (where the
  third field is called \<^verbatim>\<open>timestamp\<close>), \<^verbatim>\<open>lastNetSnapshot\<close> in the other;
  \<open>None\<close> before the first sample. Times are Unix milliseconds.
\<close>

record NetSnapshot =
  rx :: int
  tx :: int
  time :: int

text \<open>
  Rates in bytes per second. JavaScript's floating-point division is modelled as exact
  division of real numbers.
\<close>

record NetworkSpeed =
  upload :: real
  download :: real

text \<open>
  \<^verbatim>\<open>calculateNetworkSpeed(networkStats, timestamp)\<close>, the version of the class with
  the private method of that name. The second component is \<^verbatim>\<open>lastNetworkStats\<close>
  after the call. (A further copy of the method first filters out loopback and inactive
  interfaces and is otherwise the same.)
\<close>

definition calculateNetworkSpeed ::
  "NetworkStatsData list \<Rightarrow> int \<Rightarrow> NetSnapshot option \<Rightarrow> NetworkSpeed \<times> NetSnapshot option" where
  "calculateNetworkSpeed networkStats timestamp' lastNetworkStats =
     (if length networkStats = 0 then (\<lparr>upload = 0, download = 0\<rparr>, lastNetworkStats)
      else
        (let totalRx = foldl (\<lambda>sum stat. sum + rx_bytes stat) 0 networkStats;
             totalTx = foldl (\<lambda>sum stat. sum + tx_bytes stat) 0 networkStats
         in case lastNetworkStats of
              None \<Rightarrow>
                (\<lparr>upload = 0, download = 0\<rparr>,
                 Some \<lparr>rx = totalRx, tx = totalTx, time = timestamp'\<rparr>)
            | Some prev \<Rightarrow>
                (let timeDelta = real_of_int (timestamp' - time prev) / 1000 in
                 if timeDelta \<le> 0 then (\<lparr>upload = 0, download = 0\<rparr>, Some prev)
                 else
                   (let rxDelta = totalRx - rx prev;
                        txDelta = totalTx - tx prev;
                        download' = max 0 (real_of_int rxDelta / timeDelta);
                        upload' = max 0 (real_of_int txDelta / timeDelta)
                    in (\<lparr>upload = upload', download = download'\<rparr>,
                        Some \<lparr>rx = totalRx, tx = totalTx, time = timestamp'\<rparr>)))))"

text \<open>
  The network part of \<^verbatim>\<open>collectDynamicStatus()\<close> in the version of the class that
  keeps \<^verbatim>\<open>lastNetSnapshot\<close>. \<open>stats\<close> holds, for each interface that passed the
  filter, the first element of \<^verbatim>\<open>await si.networkStats(iface.iface)\<close>, or \<open>None\<close>
  when that call threw or returned an empty array (both skip the interface).
\<close>

definition sumInterfaces :: "NetworkStatsData option list \<Rightarrow> int \<times> int" where
  "sumInterfaces stats =
     foldl (\<lambda>(totalRx, totalTx) s.
              case s of
                None \<Rightarrow> (totalRx, totalTx)
              | Some stat \<Rightarrow> (totalRx + rx_bytes stat, totalTx + tx_bytes stat))
       (0, 0) stats"

definition collectDynamicStatus_network ::
  "NetworkStatsData option list \<Rightarrow> int \<Rightarrow> NetSnapshot option \<Rightarrow> NetworkSpeed \<times> NetSnapshot option" where
  "collectDynamicStatus_network stats timestamp' lastNetSnapshot =
     (case sumInterfaces stats of
        (totalRx, totalTx) \<Rightarrow>
          (let speed =
                 (case lastNetSnapshot of
                    None \<Rightarrow> \<lparr>upload = 0, download = 0\<rparr>
                  | Some prev \<Rightarrow>
                      (let dt = real_of_int (timestamp' - time prev) / 1000 in
                       if dt > 0
                       then \<lparr>upload = real_of_int (totalTx - tx prev) / dt,
                             download = real_of_int (totalRx - rx prev) / dt\<rparr>
                       else \<lparr>upload = 0, download = 0\<rparr>))
           in (speed, Some \<lparr>rx = totalRx, tx = totalTx, time = timestamp'\<rparr>)))"

subsection \<open>Sequences of calls\<close>

text \<open>
  A sequence of \<^verbatim>\<open>cacheFailedReport\<close> calls, each with the clock value it reads and
  its payload, and \<open>n\<close> consecutive retry passes.
\<close>

definition cacheFailedReports :: "'p world \<Rightarrow> (int \<times> 'p) list \<Rightarrow> 'p Reporter \<Rightarrow> 'p Reporter" where
  "cacheFailedReports w calls r = foldl (\<lambda>r' (now, p). cacheFailedReport w now p r') r calls"

definition retryPasses :: "'p world \<Rightarrow> nat \<Rightarrow> 'p Reporter \<Rightarrow> 'p Reporter" where
  "retryPasses w n r = (retryCachedReports w ^^ n) r"

subsection \<open>Concrete inputs\<close>

text \<open>
  The defaults of \<^verbatim>\<open>getDefaultConfig\<close>, with a cache of two entries, as in the test
  \<^verbatim>\<open>should enforce cache size limit\<close>.
\<close>

definition example_config :: ClientConfig where
  "example_config =
     \<lparr>clientName = ''test-client'', clientTags = [''tag1'', ''tag2''],
      clientPurpose = ''testing'', serverUrl = ''http://localhost:7788'',
      reportInterval = 60000, minReportInterval = 10000, maxRetries = 3, cacheSize = 2\<rparr>"

definition server_down :: "string world" where
  "server_down = \<lparr>post = (\<lambda>k p. Rejected ''Network error''), fs_ok = (\<lambda>k. True)\<rparr>"

definition server_up :: "string world" where
  "server_up = \<lparr>post = (\<lambda>k p. Resolved 200), fs_ok = (\<lambda>k. True)\<rparr>"

definition fresh_reporter :: "string Reporter" where
  "fresh_reporter =
     \<lparr>config = example_config, cache = [], disk = None, writeAttempts = 0, posts = []\<rparr>"

definition backlog :: "string CachedReport list" where
  "backlog =
     [\<lparr>payload = ''A'', timestamp = 1000, retryCount = 0\<rparr>,
      \<lparr>payload = ''B'', timestamp = 2000, retryCount = 1\<rparr>]"

definition backlog_reporter :: "string Reporter" where
  "backlog_reporter =
     \<lparr>config = example_config, cache = backlog, disk = Some (Json backlog),
      writeAttempts = 2, posts = []\<rparr>"

text \<open>The fresh reporter after one failed delivery of payload \<open>A\<close> at time 1000.\<close>

definition once_cached :: "string Reporter" where
  "once_cached = cacheFailedReport server_down 1000 ''A'' fresh_reporter"

text \<open>A reporter whose cache is empty while the cache file holds text that does not parse.\<close>

definition stale_reporter :: "string Reporter" where
  "stale_reporter =
     \<lparr>config = example_config, cache = [], disk = Some (Garbage ''[{''),
      writeAttempts = 0, posts = []\<rparr>"

definition running_client :: "string MonitorClient" where
  "running_client =
     \<lparr>reporter = backlog_reporter, intervalId = Some 0, isRunning = True,
      timers = [0], nextTimer = 1, cyclesStarted = 1\<rparr>"

definition example_uuids :: "nat \<Rightarrow> js_string" where
  "example_uuids k = (if k = 0 then utf16 ''uuid-first'' else utf16 ''uuid-second'')"

definition working_world :: id_world where
  "working_world = \<lparr>mkdir_ok = True, read_ok = True, write_ok = True, uuidv4 = example_uuids\<rparr>"

definition readonly_world :: id_world where
  "readonly_world = \<lparr>mkdir_ok = True, read_ok = True, write_ok = False, uuidv4 = example_uuids\<rparr>"

definition empty_dir :: id_fs where
  "empty_dir = \<lparr>dir_exists = True, id_file = None\<rparr>"

text \<open>
  An identifier file that holds \<open>abc\<close> after a byte order mark and a space, with a
  line feed at the end; and one that holds a byte order mark and a no-break space only.
\<close>

definition stored_id :: js_string where
  "stored_id = [0xFEFF, 0x20] @ utf16 ''abc'' @ [0x0A]"

definition blank_id :: js_string where
  "blank_id = [0xFEFF, 0xA0]"

definition eth0 :: "int \<Rightarrow> int \<Rightarrow> NetworkStatsData" where
  "eth0 r t = \<lparr>iface = ''eth0'', rx_bytes = r, tx_bytes = t\<rparr>"

definition stored_sample :: NetSnapshot where
  "stored_sample = \<lparr>rx = 5000, tx = 3000, time = 10000\<rparr>"

section \<open>Properties of the reporter\<close>

subsection \<open>Auxiliary facts\<close>

lemma js_slice_from_neg:
  "0 < c \<Longrightarrow> js_slice_from (- c) xs = drop (length xs - nat c) xs"
  by (auto simp: js_slice_from_def Let_def max_def nat_diff_distrib')

lemma js_slice_from_zero: "js_slice_from (- 0) xs = xs"
  by (simp add: js_slice_from_def)

lemma cache_saveCacheToDisk [simp]: "cache (saveCacheToDisk w r) = cache r"
  by (simp add: saveCacheToDisk_def)

lemma posts_saveCacheToDisk [simp]: "posts (saveCacheToDisk w r) = posts r"
  by (simp add: saveCacheToDisk_def)

lemma config_saveCacheToDisk [simp]: "config (saveCacheToDisk w r) = config r"
  by (simp add: saveCacheToDisk_def)

lemma cache_cacheFailedReport_pos:
  assumes "0 < cacheSize (config r)"
  shows "cache (cacheFailedReport w now p r) =
     drop (Suc (length (cache r)) - nat (cacheSize (config r)))
       (cache r @ [\<lparr>payload = p, timestamp = now, retryCount = 0\<rparr>])"
proof -
  let ?pushed = "cache r @ [\<lparr>payload = p, timestamp = now, retryCount = 0\<rparr>]"
  have len: "length ?pushed = Suc (length (cache r))" by simp
  show ?thesis
  proof (cases "int (length ?pushed) > cacheSize (config r)")
    case True
    then show ?thesis
      using assms by (simp add: cacheFailedReport_def Let_def js_slice_from_neg)
  next
    case False
    then have "Suc (length (cache r)) - nat (cacheSize (config r)) = 0" by simp
    with False show ?thesis
      by (simp add: cacheFailedReport_def Let_def)
  qed
qed

lemma length_cacheFailedReport_pos:
  "0 < cacheSize (config r) \<Longrightarrow>
   length (cache (cacheFailedReport w now p r)) \<le> nat (cacheSize (config r))"
  by (simp add: cache_cacheFailedReport_pos)

lemma config_cacheFailedReport [simp]: "config (cacheFailedReport w now p r) = config r"
  by (simp add: cacheFailedReport_def Let_def)

lemma retry_loop_eq:
  "retry_loop w maxR cs failedReports sent =
     (failedReports @
        [c\<lparr>retryCount := retryCount c + 1\<rparr>.
           (k, c) \<leftarrow> enumerate (length sent) cs,
           isl (try_post (post w k (payload c))), retryCount c + 1 < maxR],
      sent @ map payload cs)"
proof (induction cs arbitrary: failedReports sent)
  case Nil
  show ?case by simp
next
  case (Cons c cs)
  show ?case
    by (cases "try_post (post w (length sent) (payload c))") (simp_all add: Cons.IH Let_def)
qed

lemma cache_retryCachedReports:
  "cache (retryCachedReports w r) =
     [c\<lparr>retryCount := retryCount c + 1\<rparr>.
        (k, c) \<leftarrow> enumerate (length (posts r)) (cache r),
        isl (try_post (post w k (payload c))), retryCount c + 1 < maxRetries (config r)]"
  by (cases "cache r") (simp_all add: retryCachedReports_def retry_loop_eq del: retry_loop.simps)

lemma posts_retryCachedReports:
  "posts (retryCachedReports w r) = posts r @ map payload (cache r)"
  by (cases "cache r") (simp_all add: retryCachedReports_def retry_loop_eq del: retry_loop.simps)

lemma config_retryCachedReports [simp]: "config (retryCachedReports w r) = config r"
  by (simp add: retryCachedReports_def split: prod.splits)

lemma cache_cacheFailedReport_zero:
  "cacheSize (config r) = 0 \<Longrightarrow>
   cache (cacheFailedReport w now p r) =
     cache r @ [\<lparr>payload = p, timestamp = now, retryCount = 0\<rparr>]"
  by (simp add: cacheFailedReport_def Let_def js_slice_from_def)

lemma drop_last_window:
  "drop (length (drop (length xs - c) xs @ ys) - c) (drop (length xs - c) xs @ ys) =
   drop (length (xs @ ys) - c) (xs @ ys)"
  by (cases "length xs \<le> c") (auto simp: add.commute)

lemma cache_cacheFailedReports_pos:
  assumes "0 < cacheSize (config r)"
  shows "cache (cacheFailedReports w calls r) =
     (let entries = cache r @ map (\<lambda>(now, p). \<lparr>payload = p, timestamp = now, retryCount = 0\<rparr>) calls
      in if calls = [] then cache r
         else drop (length entries - nat (cacheSize (config r))) entries)"
  using assms
proof (induction calls arbitrary: r)
  case Nil
  show ?case by (simp add: cacheFailedReports_def)
next
  case (Cons call rest)
  obtain now p where call: "call = (now, p)" by (cases call)
  let ?c = "nat (cacheSize (config r))"
  let ?e = "\<lparr>payload = p, timestamp = now, retryCount = 0\<rparr>"
  let ?E = "map (\<lambda>(now, p). \<lparr>payload = p, timestamp = now, retryCount = 0\<rparr>) rest"
  let ?r1 = "cacheFailedReport w now p r"
  have step: "cacheFailedReports w ((now, p) # rest) r = cacheFailedReports w rest ?r1"
    by (simp add: cacheFailedReports_def)
  have c1: "cache ?r1 = drop (length (cache r @ [?e]) - ?c) (cache r @ [?e])"
    using Cons.prems by (simp add: cache_cacheFailedReport_pos)
  have pos1: "0 < cacheSize (config ?r1)"
    using Cons.prems by simp
  show ?case
  proof (cases "rest = []")
    case True
    then show ?thesis
      using c1 by (simp add: cacheFailedReports_def call)
  next
    case False
    have "cache (cacheFailedReports w rest ?r1) =
            drop (length (cache ?r1 @ ?E) - ?c) (cache ?r1 @ ?E)"
      using Cons.IH [OF pos1] False by (simp add: Let_def)
    also have "\<dots> = drop (length ((cache r @ [?e]) @ ?E) - ?c) ((cache r @ [?e]) @ ?E)"
      unfolding c1 by (rule drop_last_window)
    finally show ?thesis
      by (simp add: step call Let_def)
  qed
qed

lemma retryPasses_Suc: "retryPasses w (Suc n) r = retryCachedReports w (retryPasses w n r)"
  by (simp add: retryPasses_def)

lemma retryPasses_0: "retryPasses w 0 r = r"
  by (simp add: retryPasses_def)

lemma config_retryPasses [simp]: "config (retryPasses w n r) = config r"
  by (induction n) (simp_all add: retryPasses_0 retryPasses_Suc)

lemma single_failing_entry:
  assumes fails: "\<forall>k q. isl (try_post (post w k q))"
    and pos: "0 < maxRetries (config r)"
    and one: "cache r = [\<lparr>payload = p, timestamp = t, retryCount = 0\<rparr>]"
  shows "cache (retryPasses w n r) =
           (if int n < maxRetries (config r)
            then [\<lparr>payload = p, timestamp = t, retryCount = int n\<rparr>] else [])
         \<and> posts (retryPasses w n r) =
             posts r @ replicate (min n (nat (maxRetries (config r)))) p"
proof (induction n)
  case 0
  show ?case using pos one by (simp add: retryPasses_0)
next
  case (Suc n)
  let ?s = "retryPasses w n r"
  let ?m = "maxRetries (config r)"
  show ?case
  proof (cases "int n < ?m")
    case True
    with Suc have c: "cache ?s = [\<lparr>payload = p, timestamp = t, retryCount = int n\<rparr>]"
      and ps: "posts ?s = posts r @ replicate n p"
      by (simp_all add: min_def)
    have "cache (retryCachedReports w ?s) =
            (if int n + 1 < ?m then [\<lparr>payload = p, timestamp = t, retryCount = int n + 1\<rparr>] else [])"
      using fails by (simp add: cache_retryCachedReports c)
    moreover have "posts (retryCachedReports w ?s) = posts r @ replicate (Suc n) p"
      by (simp add: posts_retryCachedReports c ps replicate_append_same)
    moreover have "min (Suc n) (nat ?m) = Suc n"
      using True by simp
    ultimately show ?thesis
      by (simp add: retryPasses_Suc add.commute)
  next
    case False
    with Suc have c: "cache ?s = []"
      and ps: "posts ?s = posts r @ replicate (min n (nat ?m)) p"
      by simp_all
    have "retryCachedReports w ?s = ?s"
      by (simp add: retryCachedReports_def c)
    moreover have "min (Suc n) (nat ?m) = min n (nat ?m)"
      using False by simp
    ultimately show ?thesis
      using False c ps by (simp add: retryPasses_Suc)
  qed
qed

lemma all_fail_server_down: "\<forall>k q. isl (try_post (post server_down k q))"
  by (simp add: server_down_def)

lemma once_cached_simps:
  "cache once_cached = [\<lparr>payload = ''A'', timestamp = 1000, retryCount = 0\<rparr>]"
  "maxRetries (config once_cached) = 3"
  "posts once_cached = []"
  by (simp_all add: once_cached_def cacheFailedReport_def Let_def saveCacheToDisk_def
      fresh_reporter_def example_config_def)

subsection \<open>The cache bound of cacheFailedReport\<close>

text \<open>
  For a capacity of at least 1 the cache is bounded: after any call it holds at most
  \<open>cacheSize\<close> entries (lemma \<open>length_cacheFailedReport_pos\<close>), and after a
  sequence of calls it holds the last \<open>cacheSize\<close> of the entries it held before
  followed by the new ones (lemma \<open>cache_cacheFailedReports_pos\<close>).
\<close>

text \<open>
  Claim C1: for every capacity \<open>cacheSize \<ge> 0\<close> and every sequence of
  \<^verbatim>\<open>cacheFailedReport\<close> calls, the cache holds at most \<open>cacheSize\<close> entries after
  each call, namely the most recently cached ones.

  The code does not do this for \<open>cacheSize = 0\<close>: the guard
  \<^verbatim>\<open>this.cache.length > this.config.cacheSize\<close> holds, but
  \<^verbatim>\<open>this.cache.slice(-0)\<close> is \<^verbatim>\<open>this.cache.slice(0)\<close>, a copy of the whole array.
  With capacity 0 and an empty cache, one call leaves one entry in the cache and two
  calls leave two, where the claim allows none.
\<close>

theorem cacheFailedReport_cacheSize_zero_grows:
  "cache (cacheFailedReports server_down [(1000, ''A''), (2000, ''B'')]
            (fresh_reporter\<lparr>config := example_config\<lparr>cacheSize := 0\<rparr>\<rparr>)) =
     [\<lparr>payload = ''A'', timestamp = 1000, retryCount = 0\<rparr>,
      \<lparr>payload = ''B'', timestamp = 2000, retryCount = 0\<rparr>]
   \<and> getCacheSize (cacheFailedReport server_down 1000 ''A''
            (fresh_reporter\<lparr>config := example_config\<lparr>cacheSize := 0\<rparr>\<rparr>)) = 1"
  by (simp add: cacheFailedReports_def cache_cacheFailedReport_zero getCacheSize_def
      fresh_reporter_def example_config_def)

subsection \<open>Retry passes\<close>

text \<open>
  Claim C2: in a retry pass every entry whose delivery fails has its retry counter
  incremented, and it is removed exactly when the incremented counter has reached
  \<open>maxRetries\<close>; with \<open>maxRetries = 3\<close> an entry is present after failed retries
  1 and 2, is dropped by the third and is not attempted a fourth time.

  First conjunct: the cache after a pass consists of exactly the entries whose delivery
  failed and whose incremented counter is below \<open>maxRetries\<close>, in their old order and
  with the incremented counter (\<open>k\<close> is the index of the POST that carries the entry).
  Second conjunct: when every delivery fails and \<open>maxRetries > 0\<close>, a single entry
  cached with counter 0 is present with counter \<open>n\<close> after \<open>n < maxRetries\<close> passes
  and absent from then on, and it is sent \<open>min n maxRetries\<close> times in \<open>n\<close> passes.
\<close>

theorem retry_failure_bookkeeping:
  "cache (retryCachedReports w r) =
     [c\<lparr>retryCount := retryCount c + 1\<rparr>.
        (k, c) \<leftarrow> enumerate (length (posts r)) (cache r),
        isl (try_post (post w k (payload c))),
        retryCount c + 1 < maxRetries (config r)]
   \<and> ((\<forall>k q. isl (try_post (post w k q))) \<and> 0 < maxRetries (config r)
        \<and> cache r = [\<lparr>payload = p, timestamp = t, retryCount = 0\<rparr>] \<longrightarrow>
      cache (retryPasses w n r) =
        (if int n < maxRetries (config r)
         then [\<lparr>payload = p, timestamp = t, retryCount = int n\<rparr>] else [])
      \<and> posts (retryPasses w n r) =
          posts r @ replicate (min n (nat (maxRetries (config r)))) p)"
  using cache_retryCachedReports [of w r] single_failing_entry [of w r p t n] by blast

theorem retry_failure_bookkeeping_witness:
  "(\<forall>k q. isl (try_post (post server_down k q)))
   \<and> 0 < maxRetries (config once_cached)
   \<and> cache once_cached = [\<lparr>payload = ''A'', timestamp = 1000, retryCount = 0\<rparr>]
   \<and> cache (retryPasses server_down 1 once_cached) =
        [\<lparr>payload = ''A'', timestamp = 1000, retryCount = 1\<rparr>]
   \<and> cache (retryPasses server_down 2 once_cached) =
        [\<lparr>payload = ''A'', timestamp = 1000, retryCount = 2\<rparr>]
   \<and> cache (retryPasses server_down 3 once_cached) = []
   \<and> posts (retryPasses server_down 3 once_cached) = [''A'', ''A'', ''A'']
   \<and> posts (retryPasses server_down 4 once_cached) = [''A'', ''A'', ''A'']"
proof -
  note h = all_fail_server_down once_cached_simps(2) once_cached_simps(1)
  have pre: "(\<forall>k q. isl (try_post (post server_down k q))) \<and> 0 < maxRetries (config once_cached)
      \<and> cache once_cached = [\<lparr>payload = ''A'', timestamp = 1000, retryCount = 0\<rparr>]"
    using h by simp
  have step: "cache (retryPasses server_down n once_cached) =
        (if int n < 3 then [\<lparr>payload = ''A'', timestamp = 1000, retryCount = int n\<rparr>] else [])
      \<and> posts (retryPasses server_down n once_cached) = replicate (min n 3) ''A''" for n
    using retry_failure_bookkeeping [of server_down once_cached "''A''" 1000 n] pre
    by (simp add: once_cached_simps)
  show ?thesis
    using pre step [of 1] step [of 2] step [of 3] step [of 4]
    by (simp add: numeral_3_eq_3)
qed

text \<open>
  Claim C5: a retry pass over a cache of \<open>N\<close> entries in which every delivery
  succeeds leaves the cache empty, makes exactly \<open>N\<close> delivery attempts, oldest entry
  first, and adds no entry.
\<close>

theorem retry_all_delivered:
  assumes "\<forall>k q. \<exists>status. post w k q = Resolved status \<and> 200 \<le> status \<and> status < 300"
  shows "cache (retryCachedReports w r) = []
    \<and> posts (retryCachedReports w r) = posts r @ map payload (cache r)
    \<and> length (posts (retryCachedReports w r)) = length (posts r) + length (cache r)"
proof -
  have ok: "\<not> isl (try_post (post w k q))" for k q
    using assms [rule_format, of k q] by auto
  have "cache (retryCachedReports w r) = []"
    by (simp add: cache_retryCachedReports ok)
  then show ?thesis
    by (simp add: posts_retryCachedReports)
qed

theorem retry_all_delivered_witness:
  "(\<forall>k q. \<exists>status. post server_up k q = Resolved status \<and> 200 \<le> status \<and> status < 300)
   \<and> cache (retryCachedReports server_up backlog_reporter) = []
   \<and> posts (retryCachedReports server_up backlog_reporter) = [''A'', ''B'']"
proof -
  have up: "\<forall>k q. \<exists>status. post server_up k q = Resolved status \<and> 200 \<le> status \<and> status < 300"
    by (simp add: server_up_def)
  show ?thesis
    using up retry_all_delivered [OF up, of backlog_reporter]
    by (simp add: backlog_reporter_def backlog_def)
qed

subsection \<open>Direct delivery\<close>

text \<open>
  Claim C6: when \<^verbatim>\<open>report\<close> receives a status in \<open>[200, 300)\<close> it returns
  successfully and the cache is empty afterwards, although only the fresh payload was
  sent and none of the cached entries.
\<close>

theorem report_success_clears_cache:
  assumes "post w (length (posts r)) p = Resolved status"
    and "200 \<le> status" and "status < 300"
  shows "fst (report w now p r) = Inr ()
    \<and> cache (snd (report w now p r)) = []
    \<and> posts (snd (report w now p r)) = posts r @ [p]"
  using assms by (simp add: report_def Let_def clearCache_def)

theorem report_success_clears_cache_witness:
  "post server_up (length (posts backlog_reporter)) ''Z'' = Resolved 200
   \<and> (200::int) \<le> 200 \<and> (200::int) < 300
   \<and> cache backlog_reporter \<noteq> []
   \<and> fst (report server_up 3000 ''Z'' backlog_reporter) = Inr ()
   \<and> cache (snd (report server_up 3000 ''Z'' backlog_reporter)) = []
   \<and> posts (snd (report server_up 3000 ''Z'' backlog_reporter)) = [''Z'']"
proof -
  have h: "post server_up (length (posts backlog_reporter)) ''Z'' = Resolved 200"
    by (simp add: server_up_def)
  show ?thesis
    using h report_success_clears_cache [OF h, of 3000]
    by (simp add: backlog_reporter_def backlog_def)
qed

subsection \<open>clearCache on an empty cache\<close>

text \<open>
  Claim C10: \<^verbatim>\<open>clearCache\<close> on an empty in-memory cache changes nothing: the
  reporter, the cache file and the number of write attempts are as before, so a cache
  file with stale or unparsable content is not overwritten.
\<close>

theorem clearCache_empty_no_write:
  "cache r = [] \<Longrightarrow> clearCache w r = r"
  by (simp add: clearCache_def)

theorem clearCache_empty_no_write_witness:
  "cache stale_reporter = []
   \<and> clearCache server_up stale_reporter = stale_reporter
   \<and> disk (clearCache server_up stale_reporter) = Some (Garbage ''[{'')
   \<and> writeAttempts (clearCache server_up stale_reporter) = 0"
proof -
  have h: "cache stale_reporter = []"
    by (simp add: stale_reporter_def)
  show ?thesis
    using h clearCache_empty_no_write [OF h, of server_up]
    by (simp add: stale_reporter_def)
qed

subsection \<open>Failed deliveries and the cache\<close>

lemma retry_loop_keeps_old_entries:
  "\<exists>kept. subseq kept cs \<and>
     fst (retry_loop w maxR cs failedReports sent) =
       failedReports @ map (\<lambda>c. c\<lparr>retryCount := retryCount c + 1\<rparr>) kept"
proof (induction cs arbitrary: failedReports sent)
  case Nil
  show ?case by simp
next
  case (Cons c cs)
  let ?bump = "\<lambda>c. c\<lparr>retryCount := retryCount c + 1\<rparr>"
  let ?sent = "sent @ [payload c]"
  show ?case
  proof (cases "isl (try_post (post w (length sent) (payload c))) \<and> retryCount c + 1 < maxR")
    case True
    from Cons.IH [of "failedReports @ [?bump c]" ?sent]
    obtain kept where k: "subseq kept cs"
      "fst (retry_loop w maxR cs (failedReports @ [?bump c]) ?sent) =
         (failedReports @ [?bump c]) @ map ?bump kept"
      by blast
    have "fst (retry_loop w maxR (c # cs) failedReports sent) =
            failedReports @ map ?bump (c # kept)"
      using True k(2) by (cases "try_post (post w (length sent) (payload c))") (simp_all add: Let_def)
    moreover have "subseq (c # kept) (c # cs)"
      using k(1) by simp
    ultimately show ?thesis by blast
  next
    case False
    from Cons.IH [of failedReports ?sent]
    obtain kept where k: "subseq kept cs"
      "fst (retry_loop w maxR cs failedReports ?sent) = failedReports @ map ?bump kept"
      by blast
    have "fst (retry_loop w maxR (c # cs) failedReports sent) = failedReports @ map ?bump kept"
      using False k(2) by (cases "try_post (post w (length sent) (payload c))") (simp_all add: Let_def)
    moreover have "subseq kept (c # cs)"
      using k(1) by (rule list_emb_Cons)
    ultimately show ?thesis by blast
  qed
qed

lemma retryCachedReports_keeps_old_entries:
  "\<exists>kept. subseq kept (cache r) \<and>
     cache (retryCachedReports w r) = map (\<lambda>c. c\<lparr>retryCount := retryCount c + 1\<rparr>) kept"
proof (cases "cache r = []")
  case True
  then show ?thesis by (simp add: retryCachedReports_def)
next
  case False
  from retry_loop_keeps_old_entries [of "cache r" w "maxRetries (config r)" "[]" "posts r"]
  obtain kept where "subseq kept (cache r)"
    "fst (retry_loop w (maxRetries (config r)) (cache r) [] (posts r)) =
       map (\<lambda>c. c\<lparr>retryCount := retryCount c + 1\<rparr>) kept"
    by auto
  with False show ?thesis
    by (auto simp: retryCachedReports_def split: prod.splits)
qed

lemma cache_cacheFailedReport_suffix:
  assumes "0 \<le> cacheSize (config r)"
  shows "\<exists>n. cache (cacheFailedReport w now p r) =
           drop n (cache r) @ [\<lparr>payload = p, timestamp = now, retryCount = 0\<rparr>]"
proof (cases "cacheSize (config r) = 0")
  case True
  then have "cache (cacheFailedReport w now p r) =
      drop 0 (cache r) @ [\<lparr>payload = p, timestamp = now, retryCount = 0\<rparr>]"
    by (simp add: cache_cacheFailedReport_zero)
  then show ?thesis ..
next
  case False
  with assms have pos: "0 < cacheSize (config r)" by simp
  then have "cache (cacheFailedReport w now p r) =
      drop (Suc (length (cache r)) - nat (cacheSize (config r))) (cache r)
        @ [\<lparr>payload = p, timestamp = now, retryCount = 0\<rparr>]"
    by (simp add: cache_cacheFailedReport_pos)
  then show ?thesis ..
qed

text \<open>
  Claim C7: a failed delivery of a fresh payload by \<^verbatim>\<open>report\<close> (a status outside
  \<open>[200, 300)\<close> or a rejected request) adds the payload to the cache with retry
  counter 0 before the error reaches the caller, whereas a failed delivery of a cached
  entry in a retry pass never adds the entry again as a new one.

  First conjunct, for a capacity \<open>cacheSize \<ge> 0\<close>: \<^verbatim>\<open>report\<close> returns the error,
  and the reporter it leaves behind holds a suffix of the old cache followed by exactly
  one new entry for the payload, with counter 0 and the current time. Second conjunct:
  the cache after a retry pass, whatever the deliveries did, is a subsequence of the old
  entries with their counters incremented, so that it holds no entry that was not
  there before.
\<close>

theorem failed_report_cached_once:
  "(try_post (post w (length (posts r)) p) = Inl e \<and> 0 \<le> cacheSize (config r) \<longrightarrow>
      fst (report w now p r) = Inl e
      \<and> (\<exists>n. cache (snd (report w now p r)) =
               drop n (cache r) @ [\<lparr>payload = p, timestamp = now, retryCount = 0\<rparr>]))
   \<and> (\<exists>kept. subseq kept (cache r) \<and>
         cache (retryCachedReports w r) =
           map (\<lambda>c. c\<lparr>retryCount := retryCount c + 1\<rparr>) kept)"
proof -
  have "fst (report w now p r) = Inl e
      \<and> (\<exists>n. cache (snd (report w now p r)) =
               drop n (cache r) @ [\<lparr>payload = p, timestamp = now, retryCount = 0\<rparr>])"
    if fail: "try_post (post w (length (posts r)) p) = Inl e" and size: "0 \<le> cacheSize (config r)"
  proof -
    let ?sent = "r\<lparr>posts := posts r @ [p]\<rparr>"
    have rep: "report w now p r = (Inl e, cacheFailedReport w now p ?sent)"
      using fail by (simp add: report_def Let_def)
    have "0 \<le> cacheSize (config ?sent)" using size by simp
    from cache_cacheFailedReport_suffix [OF this, of w now p]
    show ?thesis by (simp add: rep)
  qed
  with retryCachedReports_keeps_old_entries [of r w] show ?thesis by blast
qed

theorem failed_report_cached_once_witness:
  "try_post (post server_down (length (posts backlog_reporter)) ''Z'') = Inl (RequestFailed ''Network error'')
   \<and> 0 \<le> cacheSize (config backlog_reporter)
   \<and> fst (report server_down 3000 ''Z'' backlog_reporter) = Inl (RequestFailed ''Network error'')
   \<and> cache (snd (report server_down 3000 ''Z'' backlog_reporter)) =
        [\<lparr>payload = ''B'', timestamp = 2000, retryCount = 1\<rparr>,
         \<lparr>payload = ''Z'', timestamp = 3000, retryCount = 0\<rparr>]
   \<and> cache (retryCachedReports server_down backlog_reporter) =
        [\<lparr>payload = ''A'', timestamp = 1000, retryCount = 1\<rparr>,
         \<lparr>payload = ''B'', timestamp = 2000, retryCount = 2\<rparr>]"
proof -
  have h: "try_post (post server_down (length (posts backlog_reporter)) ''Z'') =
      Inl (RequestFailed ''Network error'') \<and> 0 \<le> cacheSize (config backlog_reporter)"
    by (simp add: server_down_def backlog_reporter_def example_config_def)
  have c: "cache (retryCachedReports server_down backlog_reporter) =
        [\<lparr>payload = ''A'', timestamp = 1000, retryCount = 1\<rparr>,
         \<lparr>payload = ''B'', timestamp = 2000, retryCount = 2\<rparr>]"
    by (simp add: cache_retryCachedReports server_down_def backlog_reporter_def backlog_def
        example_config_def)
  have d: "cache (snd (report server_down 3000 ''Z'' backlog_reporter)) =
        [\<lparr>payload = ''B'', timestamp = 2000, retryCount = 1\<rparr>,
         \<lparr>payload = ''Z'', timestamp = 3000, retryCount = 0\<rparr>]"
    by (simp add: report_def Let_def server_down_def cache_cacheFailedReport_pos
        backlog_reporter_def backlog_def example_config_def)
  show ?thesis
    using h c d
      failed_report_cached_once [of server_down backlog_reporter "''Z''"
        "RequestFailed ''Network error''" 3000]
    by simp
qed

section \<open>Properties of MonitorClient.start\<close>

text \<open>
  Claim C8 as the specification states it: \<^verbatim>\<open>start()\<close> on a running client fails.
  It does not: on the running client of the example the promise resolves.
\<close>

theorem start_while_running_returns_ok:
  "isRunning running_client
   \<and> fst (start server_up (Inr () :: error + unit) running_client) = Inr ()
   \<and> \<not> isl (fst (start server_up (Inr () :: error + unit) running_client))"
  by (simp add: start_def running_client_def)

text \<open>
  Claim C8, amended: \<^verbatim>\<open>start()\<close> on a client that is already running completes
  successfully without doing anything (the code logs a warning and returns): the client
  is left exactly as it was, so no second reporting loop is started, no timer is armed
  and no retry pass runs.
\<close>

theorem start_while_running_noop:
  "isRunning c \<Longrightarrow> start w staticInfo c = (Inr (), c)"
  by (simp add: start_def)

theorem start_while_running_noop_witness:
  "isRunning running_client
   \<and> start server_up (Inl (CollectFailed ''cpu'') :: error + unit) running_client = (Inr (), running_client)
   \<and> timers (snd (start server_up (Inl (CollectFailed ''cpu'') :: error + unit) running_client)) = [0]
   \<and> cyclesStarted (snd (start server_up (Inl (CollectFailed ''cpu'') :: error + unit) running_client)) = 1"
proof -
  have h: "isRunning running_client"
    by (simp add: running_client_def)
  show ?thesis
    using h start_while_running_noop [OF h, of server_up "Inl (CollectFailed ''cpu'') :: error + unit"]
    by (simp add: running_client_def)
qed

section \<open>Properties of loadOrGenerateClientId\<close>

lemma loadOrGenerateClientId_try_cases:
  "loadOrGenerateClientId_try w fs =
     (if \<not> dir_exists fs \<and> \<not> mkdir_ok w then (Inl MkdirFailed, fs, 0)
      else if id_file fs \<noteq> None \<and> \<not> read_ok w
        then (Inl ReadFailed, fs\<lparr>dir_exists := True\<rparr>, 0)
      else if (\<exists>content. id_file fs = Some content \<and> js_trim content \<noteq> [])
        then (Inr (js_trim (the (id_file fs))), fs\<lparr>dir_exists := True\<rparr>, 0)
      else if write_ok w
        then (Inr (uuidv4 w 0), fs\<lparr>dir_exists := True, id_file := Some (uuidv4 w 0)\<rparr>, 1)
      else (Inl WriteFailed, fs\<lparr>dir_exists := True\<rparr>, 1))"
  by (auto simp: loadOrGenerateClientId_try_def Let_def split: option.splits)

lemma utf16_abc: "utf16 ''abc'' = [97, 98, 99]"
  by (simp add: utf16_def)

lemma js_trim_stored_id: "js_trim stored_id = utf16 ''abc''"
  by (simp add: js_trim_def js_whitespace_def stored_id_def utf16_abc)

lemma js_trim_blank_id: "js_trim blank_id = []"
  by (simp add: js_trim_def js_whitespace_def blank_id_def)

lemma example_uuids_nonempty: "example_uuids k \<noteq> []"
  by (simp add: example_uuids_def utf16_def)

text \<open>
  Claim C9 as the specification states it: the function returns the persisted
  identifier when the file is readable, and otherwise a freshly generated token that is
  not persisted. On a first run there is no file to read, every operation succeeds, and
  the code writes the token it has generated to the file before it returns it: the
  token is persisted.
\<close>

theorem first_run_token_is_persisted:
  "id_file empty_dir = None
   \<and> mkdir_ok working_world \<and> read_ok working_world \<and> write_ok working_world
   \<and> fst (loadOrGenerateClientId working_world empty_dir) = utf16 ''uuid-first''
   \<and> id_file (snd (loadOrGenerateClientId working_world empty_dir)) = Some (utf16 ''uuid-first'')"
  by (simp add: loadOrGenerateClientId_def loadOrGenerateClientId_try_def Let_def
      working_world_def empty_dir_def example_uuids_def)

text \<open>
  Claim C9, amended: \<^verbatim>\<open>loadOrGenerateClientId\<close> never fails its caller. Whatever
  \<^verbatim>\<open>mkdirSync\<close>, \<^verbatim>\<open>readFileSync\<close> and \<^verbatim>\<open>writeFileSync\<close> do, it returns a
  non-empty identifier: the stored one, trimmed, when the file can be read and is not
  blank; a freshly generated token, which it writes to the file, when there is no file
  or a blank one and the write succeeds; and a freshly generated token that is not
  written when the directory cannot be created, the file cannot be read or the token
  cannot be written.

  The function always returns a value (it has no error result), and \<^verbatim>\<open>uuidv4()\<close> is
  taken to return non-empty tokens. The four conjuncts are the four parts of the claim,
  and their conditions cover every state of the file system and every outcome of the
  three operations.
\<close>

theorem loadOrGenerateClientId_never_fails:
  assumes uuid: "\<forall>k. uuidv4 w k \<noteq> []"
  shows "fst (loadOrGenerateClientId w fs) \<noteq> []
    \<and> (\<forall>content.
          (dir_exists fs \<or> mkdir_ok w) \<and> id_file fs = Some content \<and> read_ok w
            \<and> js_trim content \<noteq> [] \<longrightarrow>
          fst (loadOrGenerateClientId w fs) = js_trim content
            \<and> id_file (snd (loadOrGenerateClientId w fs)) = Some content)
    \<and> ((dir_exists fs \<or> mkdir_ok w)
          \<and> (id_file fs = None
               \<or> (\<exists>content. id_file fs = Some content \<and> read_ok w \<and> js_trim content = []))
          \<and> write_ok w \<longrightarrow>
        fst (loadOrGenerateClientId w fs) = uuidv4 w 0
          \<and> id_file (snd (loadOrGenerateClientId w fs)) = Some (uuidv4 w 0))
    \<and> ((\<not> dir_exists fs \<and> \<not> mkdir_ok w)
          \<or> (id_file fs \<noteq> None \<and> \<not> read_ok w)
          \<or> ((\<forall>content. id_file fs = Some content \<longrightarrow> js_trim content = []) \<and> \<not> write_ok w) \<longrightarrow>
        (\<exists>k. fst (loadOrGenerateClientId w fs) = uuidv4 w k)
          \<and> id_file (snd (loadOrGenerateClientId w fs)) = id_file fs)"
proof -
  have nonempty: "fst (loadOrGenerateClientId w fs) \<noteq> []"
    using uuid by (auto simp: loadOrGenerateClientId_def loadOrGenerateClientId_try_cases)
  have stored: "fst (loadOrGenerateClientId w fs) = js_trim content
      \<and> id_file (snd (loadOrGenerateClientId w fs)) = Some content"
    if "(dir_exists fs \<or> mkdir_ok w) \<and> id_file fs = Some content \<and> read_ok w
      \<and> js_trim content \<noteq> []" for content
    using that by (auto simp: loadOrGenerateClientId_def loadOrGenerateClientId_try_cases)
  have first_run: "fst (loadOrGenerateClientId w fs) = uuidv4 w 0
      \<and> id_file (snd (loadOrGenerateClientId w fs)) = Some (uuidv4 w 0)"
    if "(dir_exists fs \<or> mkdir_ok w)
          \<and> (id_file fs = None
               \<or> (\<exists>content. id_file fs = Some content \<and> read_ok w \<and> js_trim content = []))
          \<and> write_ok w"
    using that by (auto simp: loadOrGenerateClientId_def loadOrGenerateClientId_try_cases)
  have fallback: "(\<exists>k. fst (loadOrGenerateClientId w fs) = uuidv4 w k)
      \<and> id_file (snd (loadOrGenerateClientId w fs)) = id_file fs"
    if "(\<not> dir_exists fs \<and> \<not> mkdir_ok w)
          \<or> (id_file fs \<noteq> None \<and> \<not> read_ok w)
          \<or> ((\<forall>content. id_file fs = Some content \<longrightarrow> js_trim content = []) \<and> \<not> write_ok w)"
    using that by (auto simp: loadOrGenerateClientId_def loadOrGenerateClientId_try_cases)
  from nonempty stored first_run fallback show ?thesis by blast
qed

text \<open>
  The witness runs a stored identifier behind a byte order mark, a file that holds only
  white space beyond ASCII (a new token is generated and written), and the same file on
  a file system that refuses the write (the second token is returned, the file is as
  before).
\<close>

theorem loadOrGenerateClientId_never_fails_witness:
  "(\<forall>k. uuidv4 working_world k \<noteq> [])
   \<and> (\<forall>k. uuidv4 readonly_world k \<noteq> [])
   \<and> fst (loadOrGenerateClientId working_world (empty_dir\<lparr>id_file := Some stored_id\<rparr>)) =
       utf16 ''abc''
   \<and> id_file (snd (loadOrGenerateClientId working_world (empty_dir\<lparr>id_file := Some stored_id\<rparr>))) =
       Some stored_id
   \<and> fst (loadOrGenerateClientId working_world (empty_dir\<lparr>id_file := Some blank_id\<rparr>)) =
       utf16 ''uuid-first''
   \<and> id_file (snd (loadOrGenerateClientId working_world (empty_dir\<lparr>id_file := Some blank_id\<rparr>))) =
       Some (utf16 ''uuid-first'')
   \<and> fst (loadOrGenerateClientId readonly_world (empty_dir\<lparr>id_file := Some blank_id\<rparr>)) =
       utf16 ''uuid-second''
   \<and> id_file (snd (loadOrGenerateClientId readonly_world (empty_dir\<lparr>id_file := Some blank_id\<rparr>))) =
       Some blank_id
   \<and> fst (loadOrGenerateClientId readonly_world empty_dir) \<noteq> []"
proof -
  have u: "\<forall>k. uuidv4 working_world k \<noteq> []"
    by (simp add: working_world_def example_uuids_nonempty)
  have u': "\<forall>k. uuidv4 readonly_world k \<noteq> []"
    by (simp add: readonly_world_def example_uuids_nonempty)
  have stored: "fst (loadOrGenerateClientId working_world (empty_dir\<lparr>id_file := Some stored_id\<rparr>)) =
       utf16 ''abc''
     \<and> id_file (snd (loadOrGenerateClientId working_world (empty_dir\<lparr>id_file := Some stored_id\<rparr>))) =
       Some stored_id"
    using loadOrGenerateClientId_never_fails [OF u, of "empty_dir\<lparr>id_file := Some stored_id\<rparr>"]
    by (simp add: js_trim_stored_id utf16_abc working_world_def empty_dir_def)
  have written: "fst (loadOrGenerateClientId working_world (empty_dir\<lparr>id_file := Some blank_id\<rparr>)) =
       utf16 ''uuid-first''
     \<and> id_file (snd (loadOrGenerateClientId working_world (empty_dir\<lparr>id_file := Some blank_id\<rparr>))) =
       Some (utf16 ''uuid-first'')"
    using loadOrGenerateClientId_never_fails [OF u, of "empty_dir\<lparr>id_file := Some blank_id\<rparr>"]
    by (simp add: js_trim_blank_id working_world_def empty_dir_def example_uuids_def)
  have token: "fst (loadOrGenerateClientId readonly_world (empty_dir\<lparr>id_file := Some blank_id\<rparr>)) =
       utf16 ''uuid-second''"
    by (simp add: js_trim_blank_id readonly_world_def empty_dir_def example_uuids_def
        loadOrGenerateClientId_def loadOrGenerateClientId_try_cases)
  have kept: "id_file (snd (loadOrGenerateClientId readonly_world (empty_dir\<lparr>id_file := Some blank_id\<rparr>))) =
       Some blank_id"
    using loadOrGenerateClientId_never_fails [OF u', of "empty_dir\<lparr>id_file := Some blank_id\<rparr>"]
    by (simp add: js_trim_blank_id readonly_world_def empty_dir_def)
  have nonempty: "fst (loadOrGenerateClientId readonly_world empty_dir) \<noteq> []"
    using loadOrGenerateClientId_never_fails [OF u', of empty_dir] by blast
  from u u' stored written token kept nonempty show ?thesis by blast
qed

section \<open>Properties of the throughput computation\<close>

text \<open>
  The repository holds two versions of the computation: the method
  \<^verbatim>\<open>calculateNetworkSpeed\<close> of one version of \<^verbatim>\<open>SystemCollector\<close>, and the code
  inside \<^verbatim>\<open>collectDynamicStatus\<close> of the version that keeps \<^verbatim>\<open>lastNetSnapshot\<close>.
  Both are total functions of their inputs: no branch of either throws.
\<close>

lemma foldl_add_sum_list:
  "foldl (\<lambda>sum stat. sum + f stat) a xs = a + sum_list (map f xs)" for a :: int
  by (induction xs arbitrary: a) simp_all

lemma sumInterfaces_foldl:
  "foldl (\<lambda>(totalRx, totalTx) s.
            case s of
              None \<Rightarrow> (totalRx, totalTx)
            | Some stat \<Rightarrow> (totalRx + rx_bytes stat, totalTx + tx_bytes stat))
     (a, b) stats =
   (a + sum_list [rx_bytes stat. Some stat \<leftarrow> stats],
    b + sum_list [tx_bytes stat. Some stat \<leftarrow> stats])"
  by (induction stats arbitrary: a b) (simp_all split: option.splits)

lemma sumInterfaces_eq:
  "sumInterfaces stats =
     (sum_list [rx_bytes stat. Some stat \<leftarrow> stats], sum_list [tx_bytes stat. Some stat \<leftarrow> stats])"
  by (simp add: sumInterfaces_def sumInterfaces_foldl)

lemma max_zero_divide:
  "0 < d \<Longrightarrow> max 0 (a / d) = max 0 a / d" for a d :: real
  by (simp add: max_def zero_le_divide_iff)




text \<open>
  For \<open>dt > 0\<close>, \<^verbatim>\<open>calculateNetworkSpeed\<close> clamps: given the statistics of at least
  one interface it returns \<open>max(0, tx - prev.tx) / dt\<close> and
  \<open>max(0, rx - prev.rx) / dt\<close> and stores the new snapshot, and its rates are never
  negative. Here \<open>dt\<close> is the difference of the timestamps in seconds.
\<close>

lemma calculateNetworkSpeed_clamped:
  assumes "time prev < timestamp'" and "networkStats \<noteq> []"
  shows "calculateNetworkSpeed networkStats timestamp' (Some prev) =
         (\<lparr>upload = max 0 (real_of_int (sum_list (map tx_bytes networkStats) - tx prev))
                      / (real_of_int (timestamp' - time prev) / 1000),
           download = max 0 (real_of_int (sum_list (map rx_bytes networkStats) - rx prev))
                      / (real_of_int (timestamp' - time prev) / 1000)\<rparr>,
          Some \<lparr>rx = sum_list (map rx_bytes networkStats),
                tx = sum_list (map tx_bytes networkStats), time = timestamp'\<rparr>)"
proof -
  let ?dt = "real_of_int (timestamp' - time prev) / 1000"
  have dt: "0 < ?dt" using assms(1) by simp
  then have ndt: "\<not> ?dt \<le> 0" by simp
  show ?thesis
    using assms(2) ndt max_zero_divide [OF dt]
    by (simp add: calculateNetworkSpeed_def Let_def foldl_add_sum_list del: of_int_diff)
qed

lemma calculateNetworkSpeed_nonneg:
  assumes "time prev < timestamp'"
  shows "0 \<le> upload (fst (calculateNetworkSpeed networkStats timestamp' (Some prev)))
    \<and> 0 \<le> download (fst (calculateNetworkSpeed networkStats timestamp' (Some prev)))"
proof (cases "networkStats = []")
  case True
  then show ?thesis by (simp add: calculateNetworkSpeed_def)
next
  case False
  have "0 < real_of_int (timestamp' - time prev) / 1000" using assms by simp
  then show ?thesis
    by (simp add: calculateNetworkSpeed_clamped [OF assms False] del: of_int_diff)
qed

text \<open>
  The code inside \<^verbatim>\<open>collectDynamicStatus\<close> that keeps \<^verbatim>\<open>lastNetSnapshot\<close> divides
  the differences of the counters by \<open>dt\<close> as they are.
\<close>

lemma collectDynamicStatus_network_unclamped:
  assumes "time prev < timestamp'"
  shows "collectDynamicStatus_network stats timestamp' (Some prev) =
           (\<lparr>upload = real_of_int (snd (sumInterfaces stats) - tx prev)
                        / (real_of_int (timestamp' - time prev) / 1000),
             download = real_of_int (fst (sumInterfaces stats) - rx prev)
                        / (real_of_int (timestamp' - time prev) / 1000)\<rparr>,
            Some \<lparr>rx = fst (sumInterfaces stats), tx = snd (sumInterfaces stats),
                  time = timestamp'\<rparr>)"
  using assms
  by (simp add: collectDynamicStatus_network_def Let_def split: prod.splits)

text \<open>
  Claim C4: for every stored snapshot and every later sample with \<open>dt > 0\<close> the rates
  are \<open>max(0, tx - prev.tx) / dt\<close> and \<open>max(0, rx - prev.rx) / dt\<close>; in particular,
  when the new cumulative counters are smaller than the stored ones (a counter wrapped
  or was reset), the reported rates are 0 and never negative.

  The version of \<^verbatim>\<open>collectDynamicStatus\<close> that keeps \<^verbatim>\<open>lastNetSnapshot\<close> does not
  do this, while \<^verbatim>\<open>calculateNetworkSpeed\<close> does it with \<^verbatim>\<open>Math.max(0, ...)\<close>: with
  \<open>(rx 5000, tx 3000)\<close> of time 10000 stored, the sample \<open>(rx 100, tx 200)\<close> of time
  12000 (\<open>dt\<close> is 2 seconds) yields an upload rate of \<open>- 1400\<close> and a download rate
  of \<open>- 2450\<close> bytes per second, where the claim says 0 and 0, and
  \<^verbatim>\<open>calculateNetworkSpeed\<close> returns 0 and 0 for the same sample.
\<close>

theorem unclamped_rate_negative:
  "time stored_sample < 12000
   \<and> sumInterfaces [Some (eth0 100 200)] = (100, 200)
   \<and> upload (fst (collectDynamicStatus_network [Some (eth0 100 200)] 12000 (Some stored_sample))) = - 1400
   \<and> download (fst (collectDynamicStatus_network [Some (eth0 100 200)] 12000 (Some stored_sample))) = - 2450
   \<and> fst (calculateNetworkSpeed [eth0 100 200] 12000 (Some stored_sample)) =
       \<lparr>upload = 0, download = 0\<rparr>"
  by (simp add: collectDynamicStatus_network_def calculateNetworkSpeed_def sumInterfaces_def
      Let_def stored_sample_def eth0_def)

end
